theory Spec2Isabelle
  imports
    Complex_Main
    "HOL-Library.Monad_Syntax"
    "HOL-Library.Word"
    "HOL-Library.Signed_Division"
    "HOL-Library.Sublist"
begin

section \<open>Types of the image utilities\<close>

text \<open>
  The C++ type \<open>int\<close> of \<open>utility.h\<close> is a 32-bit two's complement integer: a
  \<open>32 word\<close>, read through \<open>sint\<close>.  \<open>int64_t\<close> is a \<open>64 word\<close>.
\<close>

type_synonym cint = "32 word"
type_synonym cint64 = "64 word"

text \<open>
  \<open>VipsInterpretation\<close> and \<open>VipsAngle\<close> are enumerations of the image engine's
  public header.  \<open>utility.h\<close> names \<open>VIPS_INTERPRETATION_RGB16\<close>,
  \<open>VIPS_INTERPRETATION_GREY16\<close> and the four angles; the other interpretations are
  the remaining enumerators of the engine.
\<close>

datatype VipsInterpretation =
    VIPS_INTERPRETATION_ERROR
  | VIPS_INTERPRETATION_MULTIBAND
  | VIPS_INTERPRETATION_B_W
  | VIPS_INTERPRETATION_HISTOGRAM
  | VIPS_INTERPRETATION_XYZ
  | VIPS_INTERPRETATION_LAB
  | VIPS_INTERPRETATION_CMYK
  | VIPS_INTERPRETATION_LABQ
  | VIPS_INTERPRETATION_RGB
  | VIPS_INTERPRETATION_CMC
  | VIPS_INTERPRETATION_LCH
  | VIPS_INTERPRETATION_LABS
  | VIPS_INTERPRETATION_sRGB
  | VIPS_INTERPRETATION_YXY
  | VIPS_INTERPRETATION_FOURIER
  | VIPS_INTERPRETATION_RGB16
  | VIPS_INTERPRETATION_GREY16
  | VIPS_INTERPRETATION_MATRIX
  | VIPS_INTERPRETATION_scRGB
  | VIPS_INTERPRETATION_HSV

datatype VipsAngle = VIPS_ANGLE_D0 | VIPS_ANGLE_D90 | VIPS_ANGLE_D180 | VIPS_ANGLE_D270

text \<open>
  The enumerations of \<open>enums.h\<close>.  \<open>ImageType\<close> has the ten enumerators that
  \<open>image_type_id\<close> and \<open>determine_image_type\<close> list.  Of \<open>Output\<close> the utilities
  name five; \<open>determine_image_extension\<close> has a \<open>default\<close> label for any further
  enumerator, which \<open>Output_Unlisted\<close> stands for.  \<open>Position\<close> has the eight anchors
  of the case labels of \<open>calculate_position\<close> and the centre, which its \<open>default\<close>
  label serves.
\<close>

datatype ImageType =
    ImageType_Jpeg
  | ImageType_Png
  | ImageType_Webp
  | ImageType_Tiff
  | ImageType_Gif
  | ImageType_Svg
  | ImageType_Pdf
  | ImageType_Heif
  | ImageType_Magick
  | ImageType_Unknown

datatype Output =
    Output_Jpeg
  | Output_Webp
  | Output_Tiff
  | Output_Gif
  | Output_Png
  | Output_Unlisted

datatype Position =
    Position_Centre
  | Position_Top
  | Position_Right
  | Position_Bottom
  | Position_Left
  | Position_TopRight
  | Position_BottomRight
  | Position_BottomLeft
  | Position_TopLeft

section \<open>Bit depth and alpha maximum\<close>

definition is_16_bit :: "VipsInterpretation \<Rightarrow> bool" where
  "is_16_bit interpretation \<longleftrightarrow>
     interpretation = VIPS_INTERPRETATION_RGB16 \<or>
     interpretation = VIPS_INTERPRETATION_GREY16"

definition maximum_image_alpha :: "VipsInterpretation \<Rightarrow> cint" where
  "maximum_image_alpha interpretation =
     (if is_16_bit interpretation then 65535 else 255)"

section \<open>Rotation, output format and extension\<close>

text \<open>The \<open>switch\<close> of \<open>resolve_angle_rotation\<close>; every other value takes \<open>default\<close>.\<close>

definition resolve_angle_rotation :: "cint \<Rightarrow> VipsAngle" where
  "resolve_angle_rotation angle =
     (if angle = 90 then VIPS_ANGLE_D90
      else if angle = 180 then VIPS_ANGLE_D180
      else if angle = 270 then VIPS_ANGLE_D270
      else VIPS_ANGLE_D0)"

fun determine_image_extension :: "Output \<Rightarrow> string" where
  "determine_image_extension Output_Jpeg = ''.jpg''"
| "determine_image_extension Output_Webp = ''.webp''"
| "determine_image_extension Output_Tiff = ''.tiff''"
| "determine_image_extension Output_Gif = ''.gif''"
| "determine_image_extension Output_Png = ''.png''"
| "determine_image_extension _ = ''.png''"

fun to_output :: "ImageType \<Rightarrow> Output" where
  "to_output ImageType_Jpeg = Output_Jpeg"
| "to_output ImageType_Webp = Output_Webp"
| "to_output ImageType_Tiff = Output_Tiff"
| "to_output ImageType_Gif = Output_Gif"
| "to_output ImageType_Png = Output_Png"
| "to_output _ = Output_Png"

section \<open>Loader names\<close>

text \<open>
  \<open>std::string::rfind(str, pos)\<close>: the greatest index not above \<open>pos\<close> at which
  \<open>str\<close> occurs in the string, \<open>npos\<close> (here \<open>None\<close>) when there is none.  The
  search starts at \<open>min (size - n) pos\<close> and walks down to index 0.
\<close>

fun rfind_from :: "string \<Rightarrow> string \<Rightarrow> nat \<Rightarrow> nat option" where
  "rfind_from s str 0 = (if take (length str) s = str then Some 0 else None)"
| "rfind_from s str (Suc pos) =
     (if take (length str) (drop (Suc pos) s) = str then Some (Suc pos)
      else rfind_from s str pos)"

definition rfind :: "string \<Rightarrow> string \<Rightarrow> nat \<Rightarrow> nat option" where
  "rfind s str pos =
     (if length str \<le> length s then rfind_from s str (min (length s - length str) pos)
      else None)"

definition determine_image_type :: "string \<Rightarrow> ImageType" where
  "determine_image_type loader =
     (if rfind loader ''VipsForeignLoadJpeg'' 0 = Some 0 then ImageType_Jpeg
      else if rfind loader ''VipsForeignLoadPng'' 0 = Some 0 then ImageType_Png
      else if rfind loader ''VipsForeignLoadWebp'' 0 = Some 0 then ImageType_Webp
      else if rfind loader ''VipsForeignLoadTiff'' 0 = Some 0 then ImageType_Tiff
      else if rfind loader ''VipsForeignLoadGif'' 0 = Some 0 then ImageType_Gif
      else if rfind loader ''VipsForeignLoadSvg'' 0 = Some 0 then ImageType_Svg
      else if rfind loader ''VipsForeignLoadPdf'' 0 = Some 0 then ImageType_Pdf
      else if rfind loader ''VipsForeignLoadHeif'' 0 = Some 0 then ImageType_Heif
      else if rfind loader ''VipsForeignLoadMagick'' 0 = Some 0 then ImageType_Magick
      else ImageType_Unknown)"

text \<open>The nine recognised loader prefixes with their image types, as a table.\<close>

definition loader_prefixes :: "(string \<times> ImageType) list" where
  "loader_prefixes =
     [(''VipsForeignLoadJpeg'', ImageType_Jpeg),
      (''VipsForeignLoadPng'', ImageType_Png),
      (''VipsForeignLoadWebp'', ImageType_Webp),
      (''VipsForeignLoadTiff'', ImageType_Tiff),
      (''VipsForeignLoadGif'', ImageType_Gif),
      (''VipsForeignLoadSvg'', ImageType_Svg),
      (''VipsForeignLoadPdf'', ImageType_Pdf),
      (''VipsForeignLoadHeif'', ImageType_Heif),
      (''VipsForeignLoadMagick'', ImageType_Magick)]"

section \<open>Anchored positions\<close>

text \<open>
  The C++ division of two \<open>int\<close>s truncates towards zero (\<open>sdiv\<close> on the signed
  values).  Subtraction is the two's complement one of the machine; it agrees with
  the subtraction of integers whenever the difference is an \<open>int\<close>.
\<close>

definition c_div :: "cint \<Rightarrow> cint \<Rightarrow> cint" where
  "c_div a b = word_of_int (sint a sdiv sint b)"

fun calculate_position ::
  "cint \<Rightarrow> cint \<Rightarrow> cint \<Rightarrow> cint \<Rightarrow> Position \<Rightarrow> cint \<times> cint" where
  "calculate_position in_width in_height out_width out_height Position_Top =
     (c_div (out_width - in_width) 2, 0)"
| "calculate_position in_width in_height out_width out_height Position_Right =
     (out_width - in_width, c_div (out_height - in_height) 2)"
| "calculate_position in_width in_height out_width out_height Position_Bottom =
     (c_div (out_width - in_width) 2, out_height - in_height)"
| "calculate_position in_width in_height out_width out_height Position_Left =
     (0, c_div (out_height - in_height) 2)"
| "calculate_position in_width in_height out_width out_height Position_TopRight =
     (out_width - in_width, 0)"
| "calculate_position in_width in_height out_width out_height Position_BottomRight =
     (out_width - in_width, out_height - in_height)"
| "calculate_position in_width in_height out_width out_height Position_BottomLeft =
     (0, out_height - in_height)"
| "calculate_position in_width in_height out_width out_height Position_TopLeft =
     (0, 0)"
| "calculate_position in_width in_height out_width out_height _ =
     (c_div (out_width - in_width) 2, c_div (out_height - in_height) 2)"

text \<open>
  The 3x3 anchor grid in the words of the specification: every anchor lies in one of
  three columns and one of three rows; the first track takes none of the surplus,
  the middle one half of it and the last one all of it.
\<close>

datatype Track = Track_First | Track_Middle | Track_Last

fun anchor_column :: "Position \<Rightarrow> Track" where
  "anchor_column Position_TopLeft = Track_First"
| "anchor_column Position_Left = Track_First"
| "anchor_column Position_BottomLeft = Track_First"
| "anchor_column Position_Top = Track_Middle"
| "anchor_column Position_Centre = Track_Middle"
| "anchor_column Position_Bottom = Track_Middle"
| "anchor_column Position_TopRight = Track_Last"
| "anchor_column Position_Right = Track_Last"
| "anchor_column Position_BottomRight = Track_Last"

fun anchor_row :: "Position \<Rightarrow> Track" where
  "anchor_row Position_TopLeft = Track_First"
| "anchor_row Position_Top = Track_First"
| "anchor_row Position_TopRight = Track_First"
| "anchor_row Position_Left = Track_Middle"
| "anchor_row Position_Centre = Track_Middle"
| "anchor_row Position_Right = Track_Middle"
| "anchor_row Position_BottomLeft = Track_Last"
| "anchor_row Position_Bottom = Track_Last"
| "anchor_row Position_BottomRight = Track_Last"

fun anchor_offset :: "Track \<Rightarrow> cint \<Rightarrow> cint" where
  "anchor_offset Track_First surplus = 0"
| "anchor_offset Track_Middle surplus = c_div surplus 2"
| "anchor_offset Track_Last surplus = surplus"

text \<open>The same offsets over the integers, the surplus not reduced to 32 bits.\<close>

fun anchor_offset_int :: "Track \<Rightarrow> int \<Rightarrow> int" where
  "anchor_offset_int Track_First surplus = 0"
| "anchor_offset_int Track_Middle surplus = surplus sdiv 2"
| "anchor_offset_int Track_Last surplus = surplus"

section \<open>Overflow-checked multiplication\<close>

text \<open>
  \<open>mul_overflow\<close> returns whether the multiplication overflowed and stores the product
  through \<open>result\<close>: the model returns the pair of both.  The preprocessor selects one
  of two bodies; \<open>has_builtin\<close> says whether
  \<open>__GNUC__ >= 5 || __has_builtin(__builtin_smul_overflow)\<close> holds.

  \<open>__builtin_smul_overflow\<close> is the compiler's: it multiplies in infinite precision,
  stores the product cast to \<open>int\<close> and returns whether the stored value differs
  from the exact product.  The other body multiplies in \<open>int64_t\<close>, stores the product
  cast to \<open>int\<close> and compares the wide product with the limits of \<open>int\<close>.
\<close>

definition int_max :: cint where
  "int_max = 2147483647"

definition int_min :: cint where
  "int_min = - 2147483648"

definition builtin_smul_overflow :: "cint \<Rightarrow> cint \<Rightarrow> bool \<times> cint" where
  "builtin_smul_overflow a b =
     (let p = sint a * sint b; r = (word_of_int p :: cint) in (sint r \<noteq> p, r))"

definition mul_overflow :: "bool \<Rightarrow> cint \<Rightarrow> cint \<Rightarrow> bool \<times> cint" where
  "mul_overflow has_builtin a b =
     (if has_builtin then builtin_smul_overflow a b
      else
        let t = (scast a :: cint64) * scast b;
            result = (ucast t :: cint)
        in (word_sless (scast int_max) t \<or> word_sless t (scast int_min), result))"

section \<open>The image and the engine library\<close>

text \<open>
  \<open>VipsBandFormat\<close> is the engine's enumeration of band formats.
\<close>

datatype VipsBandFormat =
    VIPS_FORMAT_NOTSET
  | VIPS_FORMAT_UCHAR
  | VIPS_FORMAT_CHAR
  | VIPS_FORMAT_USHORT
  | VIPS_FORMAT_SHORT
  | VIPS_FORMAT_UINT
  | VIPS_FORMAT_INT
  | VIPS_FORMAT_FLOAT
  | VIPS_FORMAT_COMPLEX
  | VIPS_FORMAT_DOUBLE
  | VIPS_FORMAT_DPCOMPLEX

text \<open>
  What \<open>utility.h\<close> takes from the engine's headers and tables, as parameters: the
  three numbers of the library version, the four metadata names behind the macros
  \<open>VIPS_META_ICC_NAME\<close>, \<open>VIPS_META_ORIENTATION\<close>, \<open>VIPS_META_N_PAGES\<close> and
  \<open>VIPS_META_PAGE_HEIGHT\<close>, and \<open>vips_enum_nick\<close> at the two enumerations it is called
  with.
\<close>

record vips_lib =
  VIPS_MAJOR_VERSION :: nat
  VIPS_MINOR_VERSION :: nat
  VIPS_MICRO_VERSION :: nat
  VIPS_META_ICC_NAME :: string
  VIPS_META_ORIENTATION :: string
  VIPS_META_N_PAGES :: string
  VIPS_META_PAGE_HEIGHT :: string
  vips_enum_nick_interpretation :: "VipsInterpretation \<Rightarrow> string"
  vips_enum_nick_band_format :: "VipsBandFormat \<Rightarrow> string"

text \<open>
  A \<open>VImage\<close> is a handle to an image of the engine.  The utilities only read it
  through its accessors, so the model of an image is the record of what each accessor
  answers: the header fields, \<open>has_alpha()\<close>, and the metadata accessors.
  \<open>get_typeof(name)\<close> is 0 exactly when the image has no field of that name.
  \<open>get_int\<close>, \<open>get_string\<close> and \<open>get_array_int\<close> throw \<open>VError\<close> when the field
  cannot be read at that type: \<open>None\<close> is the thrown exception.  \<open>xres\<close> is a
  \<open>double\<close>, read as the real number it denotes.  The field \<open>interpretation'\<close> is
  the accessor \<open>interpretation()\<close>, and \<open>img\<close> stands for the parameter \<open>image\<close>
  of the source.
\<close>

record VImage =
  width :: cint
  height :: cint
  bands :: cint
  interpretation' :: VipsInterpretation
  format :: VipsBandFormat
  xres :: real
  has_alpha :: bool
  get_typeof :: "string \<Rightarrow> nat"
  get_int :: "string \<Rightarrow> cint option"
  get_string :: "string \<Rightarrow> string option"
  get_array_int :: "string \<Rightarrow> cint list option"

text \<open>The macro \<open>VIPS_VERSION_AT_LEAST(major, minor, patch)\<close>.\<close>

definition VIPS_VERSION_AT_LEAST :: "vips_lib \<Rightarrow> nat \<Rightarrow> nat \<Rightarrow> nat \<Rightarrow> bool" where
  "VIPS_VERSION_AT_LEAST lib major minor patch \<longleftrightarrow>
     major < VIPS_MAJOR_VERSION lib \<or>
     (major = VIPS_MAJOR_VERSION lib \<and> minor < VIPS_MINOR_VERSION lib) \<or>
     (major = VIPS_MAJOR_VERSION lib \<and> minor = VIPS_MINOR_VERSION lib \<and>
      patch \<le> VIPS_MICRO_VERSION lib)"

section \<open>Image facts\<close>

definition has_profile :: "vips_lib \<Rightarrow> VImage \<Rightarrow> bool" where
  "has_profile lib img \<longleftrightarrow> get_typeof img (VIPS_META_ICC_NAME lib) \<noteq> 0"

definition has_density :: "VImage \<Rightarrow> bool" where
  "has_density img \<longleftrightarrow> 1 < xres img"

text \<open>
  \<open>std::round\<close> rounds to the nearest integer, halves away from zero; the cast to
  \<open>int\<close> keeps the low 32 bits.  The product is taken over the reals: the rounding
  of the \<open>double\<close> product is not modelled.
\<close>

definition c_round :: "real \<Rightarrow> int" where
  "c_round x = (if 0 \<le> x then \<lfloor>x + 1 / 2\<rfloor> else - \<lfloor>- x + 1 / 2\<rfloor>)"

definition get_density :: "VImage \<Rightarrow> cint" where
  "get_density img = word_of_int (c_round (xres img * 25.4))"

definition exif_orientation :: "vips_lib \<Rightarrow> VImage \<Rightarrow> cint option" where
  "exif_orientation lib img =
     (if get_typeof img (VIPS_META_ORIENTATION lib) \<noteq> 0
      then get_int img (VIPS_META_ORIENTATION lib)
      else Some 0)"

section \<open>The JSON report\<close>

text \<open>
  \<open>operator<<\<close> on an \<open>int\<close> writes its decimal digits, with a minus sign for a
  negative value.
\<close>

definition decimal_digit :: "nat \<Rightarrow> char" where
  "decimal_digit d = ''0123456789'' ! d"

function decimal_of_nat :: "nat \<Rightarrow> string" where
  "decimal_of_nat n =
     (if 10 \<le> n then decimal_of_nat (n div 10) @ [decimal_digit (n mod 10)]
      else [decimal_digit n])"
  by pat_completeness auto
termination
  by (relation "measure (\<lambda>n. n)") auto

definition decimal_of_int :: "int \<Rightarrow> string" where
  "decimal_of_int i =
     (if 0 \<le> i then decimal_of_nat (nat i) else CHR ''-'' # decimal_of_nat (nat (- i)))"

definition string_of_cint :: "cint \<Rightarrow> string" where
  "string_of_cint w = decimal_of_int (sint w)"

definition string_of_bool :: "bool \<Rightarrow> string" where
  "string_of_bool b = (if b then ''true'' else ''false'')"

fun image_type_id :: "ImageType \<Rightarrow> string" where
  "image_type_id ImageType_Jpeg = ''jpeg''"
| "image_type_id ImageType_Png = ''png''"
| "image_type_id ImageType_Webp = ''webp''"
| "image_type_id ImageType_Tiff = ''tiff''"
| "image_type_id ImageType_Gif = ''gif''"
| "image_type_id ImageType_Svg = ''svg''"
| "image_type_id ImageType_Pdf = ''pdf''"
| "image_type_id ImageType_Heif = ''heif''"
| "image_type_id ImageType_Magick = ''magick''"
| "image_type_id ImageType_Unknown = ''unknown''"

text \<open>
  The loop over \<open>delays\<close>: every element is written, and a comma after each element
  but the last.
\<close>

fun stream_delays :: "cint list \<Rightarrow> string" where
  "stream_delays [] = []"
| "stream_delays [delay] = string_of_cint delay"
| "stream_delays (delay # delays) = string_of_cint delay @ '','' @ stream_delays delays"

text \<open>
  \<open>image_to_json\<close> appends to the stream \<open>json\<close> statement by statement.  An
  exception of an accessor ends the function without a result (\<open>None\<close>).  Both
  branches of the two \<open>#if VIPS_VERSION_AT_LEAST(8, 9, 0)\<close> are modelled.
\<close>

definition image_to_json :: "vips_lib \<Rightarrow> VImage \<Rightarrow> ImageType \<Rightarrow> string option" where
  \<open>image_to_json lib img image_type = do {
     let json = ''{'' @
       ''"format":"'' @ image_type_id image_type @ ''",'' @
       ''"width":'' @ string_of_cint (width img) @ '','' @
       ''"height":'' @ string_of_cint (height img) @ '','' @
       ''"space":"'' @ vips_enum_nick_interpretation lib (interpretation' img) @ ''",'' @
       ''"channels":'' @ string_of_cint (bands img) @ '','' @
       ''"depth":"'' @ vips_enum_nick_band_format lib (format img) @ ''",'';
     json \<leftarrow>
       (if has_density img
        then Some (json @ ''"density":'' @ string_of_cint (get_density img) @ '','')
        else Some json);
     json \<leftarrow>
       (if get_typeof img ''jpeg-chroma-subsample'' \<noteq> 0
        then do {
          s \<leftarrow> get_string img ''jpeg-chroma-subsample'';
          Some (json @ ''"chromaSubsampling":"'' @ s @ ''",'') }
        else Some json);
     let json = json @ ''"isProgressive":'' @
       string_of_bool (get_typeof img ''interlaced'' \<noteq> 0) @ '','';
     json \<leftarrow>
       (if get_typeof img ''palette-bit-depth'' \<noteq> 0
        then do {
          v \<leftarrow> get_int img ''palette-bit-depth'';
          Some (json @ ''"paletteBitDepth":'' @ string_of_cint v @ '','') }
        else Some json);
     json \<leftarrow>
       (if get_typeof img (VIPS_META_N_PAGES lib) \<noteq> 0
        then do {
          v \<leftarrow> get_int img (VIPS_META_N_PAGES lib);
          Some (json @ ''"pages":'' @ string_of_cint v @ '','') }
        else Some json);
     json \<leftarrow>
       (if get_typeof img (VIPS_META_PAGE_HEIGHT lib) \<noteq> 0
        then do {
          v \<leftarrow> get_int img (VIPS_META_PAGE_HEIGHT lib);
          Some (json @ ''"pageHeight":'' @ string_of_cint v @ '','') }
        else Some json);
     json \<leftarrow>
       (if VIPS_VERSION_AT_LEAST lib 8 9 0
        then
          (if get_typeof img ''loop'' \<noteq> 0
           then do {
             v \<leftarrow> get_int img ''loop'';
             Some (json @ ''"loop":'' @ string_of_cint v @ '','') }
           else Some json)
        else
          (if get_typeof img ''gif-loop'' \<noteq> 0
           then do {
             v \<leftarrow> get_int img ''gif-loop'';
             Some (json @ ''"loop":'' @ string_of_cint v @ '','') }
           else Some json));
     json \<leftarrow>
       (if VIPS_VERSION_AT_LEAST lib 8 9 0
        then
          (if get_typeof img ''delay'' \<noteq> 0
           then do {
             delays \<leftarrow> get_array_int img ''delay'';
             Some (json @ ''"delay":['' @ stream_delays delays @ ''],'') }
           else Some json)
        else
          (if get_typeof img ''gif-delay'' \<noteq> 0
           then do {
             v \<leftarrow> get_int img ''gif-delay'';
             Some (json @ ''"delay":['' @ string_of_cint (v * 10) @ ''],'') }
           else Some json));
     json \<leftarrow>
       (if get_typeof img ''heif-primary'' \<noteq> 0
        then do {
          v \<leftarrow> get_int img ''heif-primary'';
          Some (json @ ''"pagePrimary":'' @ string_of_cint v @ '','') }
        else Some json);
     orientation \<leftarrow> exif_orientation lib img;
     Some (json @
       ''"hasProfile":'' @ string_of_bool (has_profile lib img) @ '','' @
       ''"hasAlpha":'' @ string_of_bool (has_alpha img) @ '','' @
       ''"orientation":'' @ string_of_cint orientation @ ''}'')
   }\<close>

text \<open>
  The report in the words of the specification: a structured record, that is a list
  of members (name and value) in the order of the report, the optional ones present
  or left out.  \<open>render_object\<close> writes such a record as JSON text, the members
  separated by commas; strings are written between quotes as they are.
\<close>

datatype json_value =
    JSON_String string
  | JSON_Number cint
  | JSON_Bool bool
  | JSON_Array "cint list"

fun comma_separated :: "string list \<Rightarrow> string" where
  "comma_separated [] = []"
| "comma_separated [x] = x"
| "comma_separated (x # y # ys) = x @ '','' @ comma_separated (y # ys)"

fun render_value :: "json_value \<Rightarrow> string" where
  \<open>render_value (JSON_String s) = ''"'' @ s @ ''"''\<close>
| \<open>render_value (JSON_Number n) = string_of_cint n\<close>
| \<open>render_value (JSON_Bool b) = string_of_bool b\<close>
| \<open>render_value (JSON_Array ns) = ''['' @ comma_separated (map string_of_cint ns) @ '']''\<close>

definition render_member :: "string \<times> json_value \<Rightarrow> string" where
  \<open>render_member m = ''"'' @ fst m @ ''":'' @ render_value (snd m)\<close>

definition render_object :: "(string \<times> json_value) list \<Rightarrow> string" where
  "render_object members = ''{'' @ comma_separated (map render_member members) @ ''}''"

text \<open>
  An optional member: left out when the fact is absent, one member with the value
  read when it is present, and no record when the read throws.
\<close>

definition optional_member ::
  "bool \<Rightarrow> 'a option \<Rightarrow> string \<Rightarrow> ('a \<Rightarrow> json_value) \<Rightarrow> (string \<times> json_value) list option" where
  "optional_member present read key mk =
     (if present then map_option (\<lambda>v. [(key, mk v)]) read else Some [])"

definition image_json_members ::
  "vips_lib \<Rightarrow> VImage \<Rightarrow> ImageType \<Rightarrow> (string \<times> json_value) list option" where
  "image_json_members lib img image_type = do {
     density \<leftarrow> optional_member (has_density img) (Some (get_density img))
       ''density'' JSON_Number;
     chroma \<leftarrow> optional_member (get_typeof img ''jpeg-chroma-subsample'' \<noteq> 0)
       (get_string img ''jpeg-chroma-subsample'') ''chromaSubsampling'' JSON_String;
     palette \<leftarrow> optional_member (get_typeof img ''palette-bit-depth'' \<noteq> 0)
       (get_int img ''palette-bit-depth'') ''paletteBitDepth'' JSON_Number;
     pages \<leftarrow> optional_member (get_typeof img (VIPS_META_N_PAGES lib) \<noteq> 0)
       (get_int img (VIPS_META_N_PAGES lib)) ''pages'' JSON_Number;
     page_height \<leftarrow> optional_member (get_typeof img (VIPS_META_PAGE_HEIGHT lib) \<noteq> 0)
       (get_int img (VIPS_META_PAGE_HEIGHT lib)) ''pageHeight'' JSON_Number;
     loop \<leftarrow>
       (if VIPS_VERSION_AT_LEAST lib 8 9 0
        then optional_member (get_typeof img ''loop'' \<noteq> 0) (get_int img ''loop'')
          ''loop'' JSON_Number
        else optional_member (get_typeof img ''gif-loop'' \<noteq> 0) (get_int img ''gif-loop'')
          ''loop'' JSON_Number);
     delay \<leftarrow>
       (if VIPS_VERSION_AT_LEAST lib 8 9 0
        then optional_member (get_typeof img ''delay'' \<noteq> 0) (get_array_int img ''delay'')
          ''delay'' JSON_Array
        else optional_member (get_typeof img ''gif-delay'' \<noteq> 0) (get_int img ''gif-delay'')
          ''delay'' (\<lambda>v. JSON_Array [v * 10]));
     primary \<leftarrow> optional_member (get_typeof img ''heif-primary'' \<noteq> 0)
       (get_int img ''heif-primary'') ''pagePrimary'' JSON_Number;
     orientation \<leftarrow> exif_orientation lib img;
     Some (
       [(''format'', JSON_String (image_type_id image_type)),
        (''width'', JSON_Number (width img)),
        (''height'', JSON_Number (height img)),
        (''space'', JSON_String (vips_enum_nick_interpretation lib (interpretation' img))),
        (''channels'', JSON_Number (bands img)),
        (''depth'', JSON_String (vips_enum_nick_band_format lib (format img)))] @
       density @ chroma @
       [(''isProgressive'', JSON_Bool (get_typeof img ''interlaced'' \<noteq> 0))] @
       palette @ pages @ page_height @ loop @ delay @ primary @
       [(''hasProfile'', JSON_Bool (has_profile lib img)),
        (''hasAlpha'', JSON_Bool (has_alpha img)),
        (''orientation'', JSON_Number orientation)])
   }"

text \<open>The names of the members of the report, by the facts present on the image.\<close>

definition image_json_keys :: "vips_lib \<Rightarrow> VImage \<Rightarrow> string list" where
  "image_json_keys lib img =
     [''format'', ''width'', ''height'', ''space'', ''channels'', ''depth''] @
     (if has_density img then [''density''] else []) @
     (if get_typeof img ''jpeg-chroma-subsample'' \<noteq> 0 then [''chromaSubsampling''] else []) @
     [''isProgressive''] @
     (if get_typeof img ''palette-bit-depth'' \<noteq> 0 then [''paletteBitDepth''] else []) @
     (if get_typeof img (VIPS_META_N_PAGES lib) \<noteq> 0 then [''pages''] else []) @
     (if get_typeof img (VIPS_META_PAGE_HEIGHT lib) \<noteq> 0 then [''pageHeight''] else []) @
     (if get_typeof img (if VIPS_VERSION_AT_LEAST lib 8 9 0 then ''loop'' else ''gif-loop'') \<noteq> 0
      then [''loop''] else []) @
     (if get_typeof img (if VIPS_VERSION_AT_LEAST lib 8 9 0 then ''delay'' else ''gif-delay'') \<noteq> 0
      then [''delay''] else []) @
     (if get_typeof img ''heif-primary'' \<noteq> 0 then [''pagePrimary''] else []) @
     [''hasProfile'', ''hasAlpha'', ''orientation'']"

text \<open>The members but the last are each followed by a comma in the stream.\<close>

definition emit :: "(string \<times> json_value) list \<Rightarrow> string" where
  "emit members = concat (map (\<lambda>m. render_member m @ '','') members)"

text \<open>
  Every metadata field that \<open>image_to_json\<close> reads and that is present can be read
  at the type it is read at.
\<close>

definition metadata_readable :: "vips_lib \<Rightarrow> VImage \<Rightarrow> bool" where
  "metadata_readable lib img \<longleftrightarrow>
     (get_typeof img ''jpeg-chroma-subsample'' \<noteq> 0 \<longrightarrow>
        get_string img ''jpeg-chroma-subsample'' \<noteq> None) \<and>
     (get_typeof img ''palette-bit-depth'' \<noteq> 0 \<longrightarrow> get_int img ''palette-bit-depth'' \<noteq> None) \<and>
     (get_typeof img (VIPS_META_N_PAGES lib) \<noteq> 0 \<longrightarrow>
        get_int img (VIPS_META_N_PAGES lib) \<noteq> None) \<and>
     (get_typeof img (VIPS_META_PAGE_HEIGHT lib) \<noteq> 0 \<longrightarrow>
        get_int img (VIPS_META_PAGE_HEIGHT lib) \<noteq> None) \<and>
     (if VIPS_VERSION_AT_LEAST lib 8 9 0
      then (get_typeof img ''loop'' \<noteq> 0 \<longrightarrow> get_int img ''loop'' \<noteq> None) \<and>
           (get_typeof img ''delay'' \<noteq> 0 \<longrightarrow> get_array_int img ''delay'' \<noteq> None)
      else (get_typeof img ''gif-loop'' \<noteq> 0 \<longrightarrow> get_int img ''gif-loop'' \<noteq> None) \<and>
           (get_typeof img ''gif-delay'' \<noteq> 0 \<longrightarrow> get_int img ''gif-delay'' \<noteq> None)) \<and>
     (get_typeof img ''heif-primary'' \<noteq> 0 \<longrightarrow> get_int img ''heif-primary'' \<noteq> None) \<and>
     (get_typeof img (VIPS_META_ORIENTATION lib) \<noteq> 0 \<longrightarrow>
        get_int img (VIPS_META_ORIENTATION lib) \<noteq> None)"

text \<open>
  An engine library of version 8.9.1 and an animated image of two pages, to evaluate
  the functions on.
\<close>

definition sample_lib :: vips_lib where
  "sample_lib =
     \<lparr>VIPS_MAJOR_VERSION = 8, VIPS_MINOR_VERSION = 9, VIPS_MICRO_VERSION = 1,
      VIPS_META_ICC_NAME = ''icc-profile-data'',
      VIPS_META_ORIENTATION = ''orientation'',
      VIPS_META_N_PAGES = ''n-pages'',
      VIPS_META_PAGE_HEIGHT = ''page-height'',
      vips_enum_nick_interpretation =
        (\<lambda>i. if i = VIPS_INTERPRETATION_sRGB then ''srgb'' else ''multiband''),
      vips_enum_nick_band_format =
        (\<lambda>f. if f = VIPS_FORMAT_UCHAR then ''uchar'' else ''notset'')\<rparr>"

definition sample_gif :: VImage where
  "sample_gif =
     \<lparr>width = 4, height = 6, bands = 4,
      interpretation' = VIPS_INTERPRETATION_sRGB,
      format = VIPS_FORMAT_UCHAR,
      xres = 1,
      has_alpha = True,
      get_typeof = (\<lambda>name. if name \<in> {''n-pages'', ''page-height'', ''loop'', ''delay''}
        then 24 else 0),
      get_int = (\<lambda>name. if name = ''n-pages'' then Some 2
        else if name = ''page-height'' then Some 3
        else if name = ''loop'' then Some 0 else None),
      get_string = (\<lambda>name. None),
      get_array_int = (\<lambda>name. if name = ''delay'' then Some [100, 50] else None)\<rparr>"

section \<open>Page height\<close>

text \<open>The declared page height: the metadata field, when present and readable.\<close>

definition declared_page_height :: "vips_lib \<Rightarrow> VImage \<Rightarrow> cint option" where
  "declared_page_height lib img =
     (if get_typeof img (VIPS_META_PAGE_HEIGHT lib) \<noteq> 0
      then get_int img (VIPS_META_PAGE_HEIGHT lib) else None)"

text \<open>
  Modelled from the spec: \<open>vips_image_get_page_height\<close> is a function of the image
  engine, and \<open>get_page_height\<close> only calls it; its body is not among the sources.
  The specification gives its contract: the declared page height if present and
  plausible (greater than zero and no larger than the total image height), else the
  full image height.
\<close>

definition vips_image_get_page_height :: "vips_lib \<Rightarrow> VImage \<Rightarrow> cint" where
  "vips_image_get_page_height lib img =
     (case declared_page_height lib img of
        Some page_height \<Rightarrow>
          if word_sless 0 page_height \<and> word_sle page_height (height img)
          then page_height else height img
      | None \<Rightarrow> height img)"

definition get_page_height :: "vips_lib \<Rightarrow> VImage \<Rightarrow> cint" where
  "get_page_height lib img = vips_image_get_page_height lib img"

section \<open>Alpha channel\<close>

text \<open>
  \<open>ensure_alpha\<close> joins one constant band to an image without alpha.
  \<open>bandjoin_const\<close> is an operation of the engine on images and a parameter here.
  Whether the engine reports an alpha channel on the joined image is decided by the
  engine.
\<close>

definition ensure_alpha :: "(VImage \<Rightarrow> real list \<Rightarrow> VImage) \<Rightarrow> VImage \<Rightarrow> VImage" where
  "ensure_alpha bandjoin_const img =
     (if \<not> has_alpha img
      then bandjoin_const img [real_of_int (sint (maximum_image_alpha (interpretation' img)))]
      else img)"

section \<open>Request status\<close>

text \<open>
  Modelled from the spec: \<open>exception_handler\<close> and \<open>process\<close> are declared in
  \<open>api_manager_impl.h\<close>; their bodies are not among the sources.  The kinds of
  error are those of the specification's taxonomy, and \<open>UnexpectedError\<close> is the kind
  of an unexpected lower-level fault.  A \<open>Status\<close> is success, or an error kind with
  a message.
\<close>

datatype ErrorKind =
    ValidationError
  | GeometryError
  | UnsupportedFormatError
  | StageError
  | IOError
  | UnexpectedError

datatype failure = Failure ErrorKind string | Fault string

datatype Status = Status_OK | Status_Error ErrorKind string

fun failure_kind :: "failure \<Rightarrow> ErrorKind" where
  "failure_kind (Failure kind message) = kind"
| "failure_kind (Fault message) = UnexpectedError"

text \<open>
  Modelled from the spec: the single boundary function converts any failure into a
  \<open>Status\<close> that carries the error kind and a message that includes the original
  query string.  Where in the message the query stands is a choice of this model.
\<close>

fun exception_handler :: "string \<Rightarrow> failure \<Rightarrow> Status" where
  "exception_handler query (Failure kind message) =
     Status_Error kind (message @ '' (query: '' @ query @ '')'')"
| "exception_handler query (Fault message) =
     Status_Error UnexpectedError (message @ '' (query: '' @ query @ '')'')"

text \<open>
  Modelled from the spec: a request runs its stages in order and stops at the first
  failure; every failure funnels through \<open>exception_handler\<close>.
\<close>

fun run_stages :: "('s \<Rightarrow> failure + 's) list \<Rightarrow> 's \<Rightarrow> failure + 's" where
  "run_stages [] s = Inr s"
| "run_stages (stage # stages) s =
     (case stage s of Inl e \<Rightarrow> Inl e | Inr s' \<Rightarrow> run_stages stages s')"

definition process :: "string \<Rightarrow> ('s \<Rightarrow> failure + 's) list \<Rightarrow> 's \<Rightarrow> Status" where
  "process query stages s =
     (case run_stages stages s of
        Inl e \<Rightarrow> exception_handler query e
      | Inr s' \<Rightarrow> Status_OK)"

section \<open>Properties: bit depth and alpha maximum\<close>

text \<open>
  C7.  \<open>is_16_bit\<close> holds exactly for the interpretations RGB16 and GREY16;
  \<open>maximum_image_alpha\<close> is 65535 where \<open>is_16_bit\<close> holds and 255 for every other
  interpretation.
\<close>

theorem maximum_image_alpha_depth:
  "(is_16_bit i \<longleftrightarrow> i \<in> {VIPS_INTERPRETATION_RGB16, VIPS_INTERPRETATION_GREY16}) \<and>
   (is_16_bit i \<longrightarrow> sint (maximum_image_alpha i) = 65535) \<and>
   (\<not> is_16_bit i \<longrightarrow> sint (maximum_image_alpha i) = 255)"
  by (simp add: is_16_bit_def maximum_image_alpha_def)

theorem maximum_image_alpha_depth_witness:
  "is_16_bit VIPS_INTERPRETATION_GREY16 \<and>
   sint (maximum_image_alpha VIPS_INTERPRETATION_GREY16) = 65535 \<and>
   \<not> is_16_bit VIPS_INTERPRETATION_sRGB \<and>
   sint (maximum_image_alpha VIPS_INTERPRETATION_sRGB) = 255"
  using maximum_image_alpha_depth [of VIPS_INTERPRETATION_GREY16]
    maximum_image_alpha_depth [of VIPS_INTERPRETATION_sRGB]
  by simp

section \<open>Properties: rotation\<close>

lemma sint_eq_angle_iff:
  fixes a :: cint
  shows "sint a = 90 \<longleftrightarrow> a = 90" "sint a = 180 \<longleftrightarrow> a = 180" "sint a = 270 \<longleftrightarrow> a = 270"
  by (auto simp add: word_eq_iff_signed [where ?'a = int])

text \<open>
  C4.  \<open>resolve_angle_rotation\<close> is a total function of its \<open>int\<close> argument with no
  failing branch: 90, 180 and 270 give the quarter turns of that size, and every
  other value, negative ones and values that are no multiple of 90 included, gives
  \<open>VIPS_ANGLE_D0\<close>.
\<close>

theorem resolve_angle_rotation_total:
  "resolve_angle_rotation angle =
     (if sint angle = 90 then VIPS_ANGLE_D90
      else if sint angle = 180 then VIPS_ANGLE_D180
      else if sint angle = 270 then VIPS_ANGLE_D270
      else VIPS_ANGLE_D0)"
  by (simp add: resolve_angle_rotation_def sint_eq_angle_iff)

theorem resolve_angle_rotation_total_witness:
  "resolve_angle_rotation 90 = VIPS_ANGLE_D90 \<and>
   resolve_angle_rotation 180 = VIPS_ANGLE_D180 \<and>
   resolve_angle_rotation 270 = VIPS_ANGLE_D270 \<and>
   resolve_angle_rotation (- 90) = VIPS_ANGLE_D0 \<and>
   resolve_angle_rotation 45 = VIPS_ANGLE_D0 \<and>
   resolve_angle_rotation 360 = VIPS_ANGLE_D0"
  using resolve_angle_rotation_total [of 90] resolve_angle_rotation_total [of 180]
    resolve_angle_rotation_total [of 270] resolve_angle_rotation_total [of "- 90"]
    resolve_angle_rotation_total [of 45] resolve_angle_rotation_total [of 360]
  by simp

section \<open>Properties: output format and extension\<close>

text \<open>
  C10.  \<open>to_output\<close> yields one of the five outputs Jpeg, Webp, Tiff, Gif and Png; the
  image types without a saver of their own (Svg, Pdf, Heif, Magick, Unknown) give
  Png; and the extension of the output \<open>to_output\<close> yields is one of \<open>.jpg\<close>,
  \<open>.webp\<close>, \<open>.tiff\<close>, \<open>.gif\<close> and \<open>.png\<close>.
\<close>

theorem to_output_encodable:
  "to_output t \<in> {Output_Jpeg, Output_Webp, Output_Tiff, Output_Gif, Output_Png} \<and>
   (t \<in> {ImageType_Svg, ImageType_Pdf, ImageType_Heif, ImageType_Magick, ImageType_Unknown}
      \<longrightarrow> to_output t = Output_Png) \<and>
   determine_image_extension (to_output t) \<in>
     {''.jpg'', ''.webp'', ''.tiff'', ''.gif'', ''.png''}"
  by (cases t) simp_all

theorem to_output_encodable_witness:
  "to_output ImageType_Heif = Output_Png \<and>
   determine_image_extension (to_output ImageType_Heif) = ''.png'' \<and>
   determine_image_extension (to_output ImageType_Jpeg) = ''.jpg''"
  using to_output_encodable [of ImageType_Heif] to_output_encodable [of ImageType_Jpeg]
  by simp

section \<open>Properties: loader names\<close>

lemma prefix_iff_take: "prefix p s \<longleftrightarrow> take (length p) s = p"
  by (metis take_is_prefix prefix_def append_eq_conv_conj)

lemma rfind_0_iff_prefix: "rfind s p 0 = Some 0 \<longleftrightarrow> prefix p s"
  by (auto simp add: rfind_def prefix_iff_take dest: prefix_length_le)

lemma loader_prefixes_nested:
  "(p, t) \<in> set loader_prefixes \<Longrightarrow> (q, u) \<in> set loader_prefixes \<Longrightarrow> prefix p q \<Longrightarrow> t = u"
  by (auto simp add: loader_prefixes_def)

lemma loader_prefixes_unique:
  assumes "(p, t) \<in> set loader_prefixes" "(q, u) \<in> set loader_prefixes"
    and "prefix p s" "prefix q s"
  shows "t = u"
proof -
  from assms(3,4) have "prefix p q \<or> prefix q p" by (rule prefix_same_cases)
  then show ?thesis
    using loader_prefixes_nested [OF assms(1,2)] loader_prefixes_nested [OF assms(2,1)]
    by auto
qed

lemma determine_image_type_first:
  "(determine_image_type loader = ImageType_Unknown \<and>
      (\<forall>(p, t) \<in> set loader_prefixes. \<not> prefix p loader)) \<or>
   (\<exists>(q, u) \<in> set loader_prefixes. prefix q loader \<and> determine_image_type loader = u)"
  by (simp add: loader_prefixes_def determine_image_type_def rfind_0_iff_prefix)

lemma determine_image_type_table:
  assumes "(p, t) \<in> set loader_prefixes" and "prefix p loader"
  shows "determine_image_type loader = t"
proof -
  from assms obtain q u where "(q, u) \<in> set loader_prefixes" "prefix q loader"
    "determine_image_type loader = u"
    using determine_image_type_first [of loader] by blast
  with assms show ?thesis
    using loader_prefixes_unique by blast
qed

text \<open>
  C6.  \<open>determine_image_type\<close> is a total function of the loader name with no failing
  branch: a name that begins with one of the nine recognised prefixes has the image
  type of that prefix, and every other name has the type \<open>ImageType_Unknown\<close>.
\<close>

theorem determine_image_type_prefixes:
  "(prefix ''VipsForeignLoadJpeg'' loader \<longrightarrow> determine_image_type loader = ImageType_Jpeg) \<and>
   (prefix ''VipsForeignLoadPng'' loader \<longrightarrow> determine_image_type loader = ImageType_Png) \<and>
   (prefix ''VipsForeignLoadWebp'' loader \<longrightarrow> determine_image_type loader = ImageType_Webp) \<and>
   (prefix ''VipsForeignLoadTiff'' loader \<longrightarrow> determine_image_type loader = ImageType_Tiff) \<and>
   (prefix ''VipsForeignLoadGif'' loader \<longrightarrow> determine_image_type loader = ImageType_Gif) \<and>
   (prefix ''VipsForeignLoadSvg'' loader \<longrightarrow> determine_image_type loader = ImageType_Svg) \<and>
   (prefix ''VipsForeignLoadPdf'' loader \<longrightarrow> determine_image_type loader = ImageType_Pdf) \<and>
   (prefix ''VipsForeignLoadHeif'' loader \<longrightarrow> determine_image_type loader = ImageType_Heif) \<and>
   (prefix ''VipsForeignLoadMagick'' loader \<longrightarrow>
      determine_image_type loader = ImageType_Magick) \<and>
   ((\<forall>p \<in> fst ` set loader_prefixes. \<not> prefix p loader) \<longrightarrow>
      determine_image_type loader = ImageType_Unknown)"
proof -
  have known: "\<And>p t. (p, t) \<in> set loader_prefixes \<Longrightarrow> prefix p loader \<longrightarrow>
      determine_image_type loader = t"
    using determine_image_type_table by blast
  have unknown: "(\<forall>p \<in> fst ` set loader_prefixes. \<not> prefix p loader) \<longrightarrow>
      determine_image_type loader = ImageType_Unknown"
    using determine_image_type_first [of loader] by force
  show ?thesis
    by (intro conjI known unknown) (simp_all add: loader_prefixes_def)
qed

theorem determine_image_type_prefixes_witness:
  "determine_image_type ''VipsForeignLoadPngBuffer'' = ImageType_Png \<and>
   determine_image_type ''VipsForeignLoadJpegFile'' = ImageType_Jpeg \<and>
   determine_image_type ''VipsForeignLoadJxlFile'' = ImageType_Unknown \<and>
   determine_image_type [] = ImageType_Unknown"
  using determine_image_type_prefixes [of "''VipsForeignLoadPngBuffer''"]
    determine_image_type_prefixes [of "''VipsForeignLoadJpegFile''"]
    determine_image_type_prefixes [of "''VipsForeignLoadJxlFile''"]
    determine_image_type_prefixes [of "[]"]
  by (simp add: loader_prefixes_def)

section \<open>Properties: anchored positions\<close>

lemma c_div_0: "c_div 0 2 = 0"
  by (simp add: c_div_def)

lemma sint_sub_exact:
  fixes a b :: cint
  assumes "- (2 ^ 31) \<le> sint a - sint b" "sint a - sint b < 2 ^ 31"
  shows "sint (a - b) = sint a - sint b"
  using assms by (simp add: sint_word_ariths signed_take_bit_int_eq_self)

lemma sdiv_2_bounds:
  fixes k :: int
  shows "- (\<bar>k\<bar> div 2) \<le> k sdiv 2" "k sdiv 2 \<le> \<bar>k\<bar> div 2"
  by (auto simp add: signed_divide_int_def sgn_if)

lemma sint_c_div_2: "sint (c_div s 2) = sint s sdiv 2"
proof -
  have "- (2 ^ 31) \<le> sint s sdiv 2" "sint s sdiv 2 < 2 ^ 31"
    using sdiv_2_bounds [of "sint s"] sint_ge [of s] sint_lt [of s] by auto
  then show ?thesis
    by (simp add: c_div_def sint_sbintrunc' signed_take_bit_int_eq_self)
qed

lemma sint_anchor_offset: "sint (anchor_offset t s) = anchor_offset_int t (sint s)"
  by (cases t) (simp_all add: sint_c_div_2)

lemma calculate_position_tracks:
  "calculate_position in_width in_height out_width out_height pos =
     (anchor_offset (anchor_column pos) (out_width - in_width),
      anchor_offset (anchor_row pos) (out_height - in_height))"
  by (cases pos) simp_all

text \<open>
  C2.  For all widths and heights and every anchor, \<open>calculate_position\<close> returns the
  pair of the 3x3 grid: \<open>left\<close> is 0 in the left column, \<open>(out_width - in_width) / 2\<close>
  in the middle column and \<open>out_width - in_width\<close> in the right column, and \<open>top\<close>
  likewise over the rows, the division being that of C++.  When both differences are
  \<open>int\<close>s, the pair read as integers is the pair of these formulas over the
  integers, for a negative surplus as for a positive one.  With equal inner and outer
  sizes the result is \<open>(0, 0)\<close> for every anchor.
\<close>

theorem calculate_position_grid:
  "calculate_position in_width in_height out_width out_height pos =
     (anchor_offset (anchor_column pos) (out_width - in_width),
      anchor_offset (anchor_row pos) (out_height - in_height)) \<and>
   (- (2 ^ 31) \<le> sint out_width - sint in_width \<and> sint out_width - sint in_width < 2 ^ 31 \<longrightarrow>
      sint (fst (calculate_position in_width in_height out_width out_height pos)) =
        anchor_offset_int (anchor_column pos) (sint out_width - sint in_width)) \<and>
   (- (2 ^ 31) \<le> sint out_height - sint in_height \<and>
    sint out_height - sint in_height < 2 ^ 31 \<longrightarrow>
      sint (snd (calculate_position in_width in_height out_width out_height pos)) =
        anchor_offset_int (anchor_row pos) (sint out_height - sint in_height)) \<and>
   calculate_position in_width in_height in_width in_height pos = (0, 0)"
proof (intro conjI impI)
  show "calculate_position in_width in_height out_width out_height pos =
     (anchor_offset (anchor_column pos) (out_width - in_width),
      anchor_offset (anchor_row pos) (out_height - in_height))"
    by (rule calculate_position_tracks)
next
  assume "- (2 ^ 31) \<le> sint out_width - sint in_width \<and>
    sint out_width - sint in_width < 2 ^ 31"
  then show "sint (fst (calculate_position in_width in_height out_width out_height pos)) =
      anchor_offset_int (anchor_column pos) (sint out_width - sint in_width)"
    by (simp add: calculate_position_tracks sint_anchor_offset sint_sub_exact)
next
  assume "- (2 ^ 31) \<le> sint out_height - sint in_height \<and>
    sint out_height - sint in_height < 2 ^ 31"
  then show "sint (snd (calculate_position in_width in_height out_width out_height pos)) =
      anchor_offset_int (anchor_row pos) (sint out_height - sint in_height)"
    by (simp add: calculate_position_tracks sint_anchor_offset sint_sub_exact)
next
  show "calculate_position in_width in_height in_width in_height pos = (0, 0)"
    by (cases pos) (simp_all add: c_div_0)
qed

theorem calculate_position_grid_witness:
  "sint (fst (calculate_position 10 20 7 50 Position_Centre)) = - 1 \<and>
   sint (snd (calculate_position 10 20 7 50 Position_Centre)) = 15 \<and>
   sint (fst (calculate_position 10 20 7 50 Position_BottomRight)) = - 3 \<and>
   sint (snd (calculate_position 10 20 7 50 Position_BottomRight)) = 30 \<and>
   calculate_position 10 20 10 20 Position_Right = (0, 0)"
  using calculate_position_grid [of 10 20 7 50 Position_Centre]
    calculate_position_grid [of 10 20 7 50 Position_BottomRight]
    calculate_position_grid [of 10 20 10 20 Position_Right]
  by (simp add: signed_divide_int_def)

section \<open>Properties: overflow-checked multiplication\<close>

lemma sint_product_bounds:
  fixes a b :: cint
  shows "- (2 ^ 62) \<le> sint a * sint b" and "sint a * sint b \<le> 2 ^ 62"
proof -
  have a: "\<bar>sint a\<bar> \<le> 2 ^ 31"
    using sint_ge [of a] sint_lt [of a] by simp
  have b: "\<bar>sint b\<bar> \<le> 2 ^ 31"
    using sint_ge [of b] sint_lt [of b] by simp
  have "\<bar>sint a * sint b\<bar> = \<bar>sint a\<bar> * \<bar>sint b\<bar>"
    by (simp add: abs_mult)
  also have "\<dots> \<le> 2 ^ 31 * 2 ^ 31"
    using a b by (intro mult_mono) simp_all
  finally have "\<bar>sint a * sint b\<bar> \<le> 2 ^ 62"
    by simp
  then show "- (2 ^ 62) \<le> sint a * sint b" and "sint a * sint b \<le> 2 ^ 62"
    by simp_all
qed

lemma sint_scast_wide: "sint (scast (a :: cint) :: cint64) = sint a"
  by (rule sint_up_scast) (simp add: is_up)

lemma sint_wide_product:
  fixes a b :: cint
  shows "sint ((scast a :: cint64) * scast b) = sint a * sint b"
proof -
  have "sint ((scast a :: cint64) * scast b) = signed_take_bit 63 (sint a * sint b)"
    by (simp add: sint_word_ariths sint_scast_wide)
  also have "\<dots> = sint a * sint b"
    using sint_product_bounds [of a b] by (intro signed_take_bit_int_eq_self) simp_all
  finally show ?thesis .
qed

lemma ucast_wide: "(ucast (t :: cint64) :: cint) = word_of_int (sint t)"
  by transfer (simp add: take_bit_signed_take_bit)

lemma sint_narrow_product:
  fixes a b :: cint
  shows "sint (ucast ((scast a :: cint64) * scast b) :: cint) =
    signed_take_bit 31 (sint a * sint b)"
proof -
  have "sint (ucast ((scast a :: cint64) * scast b) :: cint) =
      sint (word_of_int (sint ((scast a :: cint64) * scast b)) :: cint)"
    by (simp only: ucast_wide)
  also have "\<dots> = signed_take_bit 31 (sint ((scast a :: cint64) * scast b))"
    by (simp only: sint_sbintrunc') simp
  finally show ?thesis
    by (simp only: sint_wide_product)
qed

lemma sint_int_max: "sint (scast int_max :: cint64) = 2147483647"
  by (simp add: int_max_def sint_scast_wide)

lemma sint_int_min: "sint (scast int_min :: cint64) = - 2147483648"
  by (simp add: int_min_def sint_scast_wide)

lemma sint_word_of_int_exact_iff:
  "sint (word_of_int p :: cint) = p \<longleftrightarrow> - (2 ^ 31) \<le> p \<and> p < 2 ^ 31"
  by (simp add: sint_sbintrunc' signed_take_bit_int_eq_self_iff)

text \<open>
  C1.  For all \<open>int\<close>s \<open>a\<close> and \<open>b\<close> and for either body of \<open>mul_overflow\<close>, the
  function returns true exactly when the product of the integers \<open>a\<close> and \<open>b\<close> lies
  outside the range from \<open>-2^31\<close> to \<open>2^31 - 1\<close>, and when it returns false the value
  stored through \<open>result\<close> is that product.
\<close>

theorem mul_overflow_exact:
  "(fst (mul_overflow has_builtin a b) \<longleftrightarrow>
      sint a * sint b < - (2 ^ 31) \<or> 2 ^ 31 - 1 < sint a * sint b) \<and>
   (\<not> fst (mul_overflow has_builtin a b) \<longrightarrow>
      sint (snd (mul_overflow has_builtin a b)) = sint a * sint b)"
proof (cases has_builtin)
  case True
  then show ?thesis
    using sint_word_of_int_exact_iff [of "sint a * sint b"]
    by (auto simp add: mul_overflow_def builtin_smul_overflow_def Let_def)
next
  case False
  then show ?thesis
    by (auto simp add: mul_overflow_def Let_def word_sless_alt sint_wide_product
        sint_narrow_product sint_int_max sint_int_min signed_take_bit_int_eq_self)
qed

theorem mul_overflow_exact_witness:
  "\<not> fst (mul_overflow False 46340 46340) \<and>
   sint (snd (mul_overflow False 46340 46340)) = 2147395600 \<and>
   fst (mul_overflow False 46341 46341) \<and>
   fst (mul_overflow True 65536 (- 32769)) \<and>
   \<not> fst (mul_overflow True 65536 (- 32768)) \<and>
   sint (snd (mul_overflow True 65536 (- 32768))) = - 2147483648"
  using mul_overflow_exact [of False 46340 46340] mul_overflow_exact [of False 46341 46341]
    mul_overflow_exact [of True 65536 "- 32769"] mul_overflow_exact [of True 65536 "- 32768"]
  by simp

section \<open>Properties: the JSON report\<close>

lemma emit_simps:
  "emit [] = []" "emit (m # ms) = render_member m @ '','' @ emit ms"
  "emit (ms @ ms') = emit ms @ emit ms'"
  by (simp_all add: emit_def)

lemma comma_separated_Cons:
  "xs \<noteq> [] \<Longrightarrow> comma_separated (x # xs) = x @ '','' @ comma_separated xs"
  by (cases xs) simp_all

lemma comma_separated_append:
  "ys \<noteq> [] \<Longrightarrow>
   comma_separated (xs @ ys) = concat (map (\<lambda>x. x @ '','') xs) @ comma_separated ys"
  by (induction xs) (simp_all add: comma_separated_Cons)

lemma stream_delays_comma_separated:
  "stream_delays ds = comma_separated (map string_of_cint ds)"
  by (induction ds rule: stream_delays.induct) simp_all

lemma stream_step:
  assumes "\<And>v. piece v = emit [(key, mk v)]"
  shows "(if c then Option.bind rd (\<lambda>v. Some (json @ piece v)) else Some json) =
    map_option (\<lambda>ms. json @ emit ms) (optional_member c rd key mk)"
  using assms by (cases rd) (simp_all add: optional_member_def emit_simps)

text \<open>
  The text that \<open>image_to_json\<close> streams is the rendering of the structured record,
  and the function throws exactly when the record has no value.
\<close>

lemma image_to_json_render:
  "image_to_json lib img image_type =
     map_option render_object (image_json_members lib img image_type)"
proof -
  have density: \<open>\<And>json.
      (if has_density img
       then Some (json @ ''"density":'' @ string_of_cint (get_density img) @ '','')
       else Some json) =
      map_option (\<lambda>ms. json @ emit ms)
        (optional_member (has_density img) (Some (get_density img)) ''density'' JSON_Number)\<close>
    by (simp add: optional_member_def emit_simps render_member_def)
  have chroma: \<open>\<And>json c rd.
      (if c then Option.bind rd (\<lambda>s. Some (json @ ''"chromaSubsampling":"'' @ s @ ''",''))
       else Some json) =
      map_option (\<lambda>ms. json @ emit ms) (optional_member c rd ''chromaSubsampling'' JSON_String)\<close>
    by (rule stream_step) (simp add: emit_simps render_member_def)
  have palette: \<open>\<And>json c rd.
      (if c then Option.bind rd (\<lambda>v. Some (json @ ''"paletteBitDepth":'' @ string_of_cint v @ '',''))
       else Some json) =
      map_option (\<lambda>ms. json @ emit ms) (optional_member c rd ''paletteBitDepth'' JSON_Number)\<close>
    by (rule stream_step) (simp add: emit_simps render_member_def)
  have pages: \<open>\<And>json c rd.
      (if c then Option.bind rd (\<lambda>v. Some (json @ ''"pages":'' @ string_of_cint v @ '',''))
       else Some json) =
      map_option (\<lambda>ms. json @ emit ms) (optional_member c rd ''pages'' JSON_Number)\<close>
    by (rule stream_step) (simp add: emit_simps render_member_def)
  have page_height: \<open>\<And>json c rd.
      (if c then Option.bind rd (\<lambda>v. Some (json @ ''"pageHeight":'' @ string_of_cint v @ '',''))
       else Some json) =
      map_option (\<lambda>ms. json @ emit ms) (optional_member c rd ''pageHeight'' JSON_Number)\<close>
    by (rule stream_step) (simp add: emit_simps render_member_def)
  have loop: \<open>\<And>json c rd.
      (if c then Option.bind rd (\<lambda>v. Some (json @ ''"loop":'' @ string_of_cint v @ '',''))
       else Some json) =
      map_option (\<lambda>ms. json @ emit ms) (optional_member c rd ''loop'' JSON_Number)\<close>
    by (rule stream_step) (simp add: emit_simps render_member_def)
  have delay: \<open>\<And>json c rd.
      (if c then Option.bind rd (\<lambda>delays. Some (json @ ''"delay":['' @ stream_delays delays @ ''],''))
       else Some json) =
      map_option (\<lambda>ms. json @ emit ms) (optional_member c rd ''delay'' JSON_Array)\<close>
    by (rule stream_step)
      (simp add: emit_simps render_member_def stream_delays_comma_separated)
  have gif_delay: \<open>\<And>json c rd.
      (if c then Option.bind rd (\<lambda>v. Some (json @ ''"delay":['' @ string_of_cint (v * 10) @ ''],''))
       else Some json) =
      map_option (\<lambda>ms. json @ emit ms)
        (optional_member c rd ''delay'' (\<lambda>v. JSON_Array [v * 10]))\<close>
    by (rule stream_step) (simp add: emit_simps render_member_def)
  have primary: \<open>\<And>json c rd.
      (if c then Option.bind rd (\<lambda>v. Some (json @ ''"pagePrimary":'' @ string_of_cint v @ '',''))
       else Some json) =
      map_option (\<lambda>ms. json @ emit ms) (optional_member c rd ''pagePrimary'' JSON_Number)\<close>
    by (rule stream_step) (simp add: emit_simps render_member_def)
  have if_distrib_map: "\<And>c f (x :: (string \<times> json_value) list option) y.
      (if c then map_option f x else map_option f y) = map_option f (if c then x else y)"
    by simp
  show ?thesis
    unfolding image_to_json_def image_json_members_def Let_def
    apply (simp only: density chroma palette pages page_height loop delay gif_delay primary
        if_distrib_map)
    apply (simp only: bind_map_option map_option_bind o_def)
    apply (simp add: render_object_def comma_separated_append comma_separated_Cons
        emit_def render_member_def o_def cong: bind_option_cong)
    done
qed

lemma optional_member_keys:
  "optional_member c rd key mk = Some ms \<Longrightarrow> map fst ms = (if c then [key] else [])"
  by (auto simp add: optional_member_def split: if_splits)

lemma optional_member_keys_if:
  "(if v then optional_member c rd key mk else optional_member c' rd' key mk') = Some ms \<Longrightarrow>
   map fst ms = (if (if v then c else c') then [key] else [])"
  by (auto simp add: optional_member_def split: if_splits)

lemma image_json_members_keys:
  assumes "image_json_members lib img image_type = Some members"
  shows "map fst members = image_json_keys lib img"
proof -
  from assms obtain density chroma palette pages page_height loop delay primary orientation
    where parts:
      "optional_member (has_density img) (Some (get_density img)) ''density'' JSON_Number =
        Some density"
      "optional_member (get_typeof img ''jpeg-chroma-subsample'' \<noteq> 0)
        (get_string img ''jpeg-chroma-subsample'') ''chromaSubsampling'' JSON_String = Some chroma"
      "optional_member (get_typeof img ''palette-bit-depth'' \<noteq> 0)
        (get_int img ''palette-bit-depth'') ''paletteBitDepth'' JSON_Number = Some palette"
      "optional_member (get_typeof img (VIPS_META_N_PAGES lib) \<noteq> 0)
        (get_int img (VIPS_META_N_PAGES lib)) ''pages'' JSON_Number = Some pages"
      "optional_member (get_typeof img (VIPS_META_PAGE_HEIGHT lib) \<noteq> 0)
        (get_int img (VIPS_META_PAGE_HEIGHT lib)) ''pageHeight'' JSON_Number = Some page_height"
      "(if VIPS_VERSION_AT_LEAST lib 8 9 0
        then optional_member (get_typeof img ''loop'' \<noteq> 0) (get_int img ''loop'')
          ''loop'' JSON_Number
        else optional_member (get_typeof img ''gif-loop'' \<noteq> 0) (get_int img ''gif-loop'')
          ''loop'' JSON_Number) = Some loop"
      "(if VIPS_VERSION_AT_LEAST lib 8 9 0
        then optional_member (get_typeof img ''delay'' \<noteq> 0) (get_array_int img ''delay'')
          ''delay'' JSON_Array
        else optional_member (get_typeof img ''gif-delay'' \<noteq> 0) (get_int img ''gif-delay'')
          ''delay'' (\<lambda>v. JSON_Array [v * 10])) = Some delay"
      "optional_member (get_typeof img ''heif-primary'' \<noteq> 0)
        (get_int img ''heif-primary'') ''pagePrimary'' JSON_Number = Some primary"
    and members: "members =
       [(''format'', JSON_String (image_type_id image_type)),
        (''width'', JSON_Number (width img)),
        (''height'', JSON_Number (height img)),
        (''space'', JSON_String (vips_enum_nick_interpretation lib (interpretation' img))),
        (''channels'', JSON_Number (bands img)),
        (''depth'', JSON_String (vips_enum_nick_band_format lib (format img)))] @
       density @ chroma @
       [(''isProgressive'', JSON_Bool (get_typeof img ''interlaced'' \<noteq> 0))] @
       palette @ pages @ page_height @ loop @ delay @ primary @
       [(''hasProfile'', JSON_Bool (has_profile lib img)),
        (''hasAlpha'', JSON_Bool (has_alpha img)),
        (''orientation'', JSON_Number orientation)]"
    unfolding image_json_members_def by (auto simp add: bind_eq_Some_conv)
  have loop: "map fst loop =
      (if get_typeof img (if VIPS_VERSION_AT_LEAST lib 8 9 0 then ''loop'' else ''gif-loop'') \<noteq> 0
       then [''loop''] else [])"
    using optional_member_keys_if [OF parts(6)] by (simp split: if_splits)
  have delay: "map fst delay =
      (if get_typeof img (if VIPS_VERSION_AT_LEAST lib 8 9 0 then ''delay'' else ''gif-delay'') \<noteq> 0
       then [''delay''] else [])"
    using optional_member_keys_if [OF parts(7)] by (simp split: if_splits)
  show ?thesis
    unfolding members image_json_keys_def
    by (simp only: map_append list.map fst_conv loop delay
        optional_member_keys [OF parts(1)] optional_member_keys [OF parts(2)]
        optional_member_keys [OF parts(3)] optional_member_keys [OF parts(4)]
        optional_member_keys [OF parts(5)] optional_member_keys [OF parts(8)])
qed

lemma in_set_optional_key: "x \<in> set (if c then [k] else []) \<longleftrightarrow> c \<and> x = k"
  by auto

lemma image_json_keys_distinct: "distinct (image_json_keys lib img)"
  unfolding image_json_keys_def
  by (simp add: in_set_optional_key split del: if_split) simp

text \<open>
  \<open>image_to_json\<close> returns a report exactly for the images whose present metadata
  fields can be read.
\<close>

lemma optional_member_Some_iff:
  "(\<exists>ms. optional_member c rd key mk = Some ms) \<longleftrightarrow> (c \<longrightarrow> rd \<noteq> None)"
  by (auto simp add: optional_member_def)

lemma bind_returns_iff:
  "(\<exists>y. Option.bind m f = Some y) \<longleftrightarrow>
     (\<exists>x. m = Some x) \<and> (\<forall>x. m = Some x \<longrightarrow> (\<exists>y. f x = Some y))"
  by (cases m) auto

lemma if_returns_iff:
  "(\<exists>y. (if v then a else b) = Some y) \<longleftrightarrow>
     (if v then (\<exists>y. a = Some y) else (\<exists>y. b = Some y))"
  by simp

lemma exif_orientation_returns_iff:
  "(\<exists>v. exif_orientation lib img = Some v) \<longleftrightarrow>
     (get_typeof img (VIPS_META_ORIENTATION lib) \<noteq> 0 \<longrightarrow>
        get_int img (VIPS_META_ORIENTATION lib) \<noteq> None)"
  by (auto simp add: exif_orientation_def)

lemma image_json_members_returns:
  "(\<exists>ms. image_json_members lib img image_type = Some ms) \<longleftrightarrow> metadata_readable lib img"
  unfolding image_json_members_def metadata_readable_def
  apply (simp only: bind_returns_iff if_returns_iff optional_member_Some_iff
      exif_orientation_returns_iff)
  apply (simp add: optional_member_Some_iff del: not_None_eq cong: conj_cong)
  done

lemma image_to_json_returns:
  "(\<exists>json. image_to_json lib img image_type = Some json) \<longleftrightarrow> metadata_readable lib img"
proof -
  have "(\<exists>json. image_to_json lib img image_type = Some json) \<longleftrightarrow>
      (\<exists>ms. image_json_members lib img image_type = Some ms)"
    by (simp add: image_to_json_render)
  then show ?thesis
    by (simp only: image_json_members_returns)
qed

text \<open>
  C5.  For every image and image type, the JSON text that \<open>image_to_json\<close> produces
  is the rendering of a record whose member names are distinct and in which each
  optional member appears exactly when the fact is present on the image: \<open>density\<close>
  iff the image has a non-default density, and \<open>pages\<close>, \<open>pageHeight\<close>, \<open>loop\<close>,
  \<open>delay\<close>, \<open>paletteBitDepth\<close>, \<open>pagePrimary\<close> (and \<open>chromaSubsampling\<close>) iff the
  metadata field they are read from is present; nothing is written for an absent
  field.  The members \<open>format\<close>, \<open>width\<close>, \<open>height\<close>, \<open>space\<close>, \<open>channels\<close>,
  \<open>depth\<close>, \<open>isProgressive\<close>, \<open>hasProfile\<close>, \<open>hasAlpha\<close> and \<open>orientation\<close> always
  appear.
\<close>

theorem image_to_json_optional_fields:
  "image_to_json lib img image_type =
     map_option render_object (image_json_members lib img image_type) \<and>
   (\<forall>members. image_json_members lib img image_type = Some members \<longrightarrow>
      distinct (map fst members) \<and>
      (''density'' \<in> fst ` set members \<longleftrightarrow> has_density img) \<and>
      (''pages'' \<in> fst ` set members \<longleftrightarrow> get_typeof img (VIPS_META_N_PAGES lib) \<noteq> 0) \<and>
      (''pageHeight'' \<in> fst ` set members \<longleftrightarrow>
         get_typeof img (VIPS_META_PAGE_HEIGHT lib) \<noteq> 0) \<and>
      (''loop'' \<in> fst ` set members \<longleftrightarrow>
         get_typeof img (if VIPS_VERSION_AT_LEAST lib 8 9 0 then ''loop'' else ''gif-loop'') \<noteq> 0) \<and>
      (''delay'' \<in> fst ` set members \<longleftrightarrow>
         get_typeof img (if VIPS_VERSION_AT_LEAST lib 8 9 0 then ''delay'' else ''gif-delay'') \<noteq> 0) \<and>
      (''paletteBitDepth'' \<in> fst ` set members \<longleftrightarrow>
         get_typeof img ''palette-bit-depth'' \<noteq> 0) \<and>
      (''pagePrimary'' \<in> fst ` set members \<longleftrightarrow> get_typeof img ''heif-primary'' \<noteq> 0) \<and>
      (''chromaSubsampling'' \<in> fst ` set members \<longleftrightarrow>
         get_typeof img ''jpeg-chroma-subsample'' \<noteq> 0) \<and>
      {''format'', ''width'', ''height'', ''space'', ''channels'', ''depth'',
       ''isProgressive'', ''hasProfile'', ''hasAlpha'', ''orientation''} \<subseteq> fst ` set members)"
proof (intro conjI allI impI)
  show "image_to_json lib img image_type =
      map_option render_object (image_json_members lib img image_type)"
    by (rule image_to_json_render)
next
  fix members
  assume "image_json_members lib img image_type = Some members"
  then have keys: "map fst members = image_json_keys lib img"
    by (rule image_json_members_keys)
  then have set_keys: "fst ` set members = set (image_json_keys lib img)"
    by (metis set_map)
  show "distinct (map fst members)"
    by (simp only: keys image_json_keys_distinct)
  show "''density'' \<in> fst ` set members \<longleftrightarrow> has_density img"
    unfolding set_keys image_json_keys_def
    by (simp add: in_set_optional_key split del: if_split)
  show "''pages'' \<in> fst ` set members \<longleftrightarrow> get_typeof img (VIPS_META_N_PAGES lib) \<noteq> 0"
    unfolding set_keys image_json_keys_def
    by (simp add: in_set_optional_key split del: if_split)
  show "''pageHeight'' \<in> fst ` set members \<longleftrightarrow>
      get_typeof img (VIPS_META_PAGE_HEIGHT lib) \<noteq> 0"
    unfolding set_keys image_json_keys_def
    by (simp add: in_set_optional_key split del: if_split)
  show "''loop'' \<in> fst ` set members \<longleftrightarrow>
      get_typeof img (if VIPS_VERSION_AT_LEAST lib 8 9 0 then ''loop'' else ''gif-loop'') \<noteq> 0"
    unfolding set_keys image_json_keys_def
    by (simp add: in_set_optional_key split del: if_split)
  show "''delay'' \<in> fst ` set members \<longleftrightarrow>
      get_typeof img (if VIPS_VERSION_AT_LEAST lib 8 9 0 then ''delay'' else ''gif-delay'') \<noteq> 0"
    unfolding set_keys image_json_keys_def
    by (simp add: in_set_optional_key split del: if_split)
  show "''paletteBitDepth'' \<in> fst ` set members \<longleftrightarrow>
      get_typeof img ''palette-bit-depth'' \<noteq> 0"
    unfolding set_keys image_json_keys_def
    by (simp add: in_set_optional_key split del: if_split)
  show "''pagePrimary'' \<in> fst ` set members \<longleftrightarrow> get_typeof img ''heif-primary'' \<noteq> 0"
    unfolding set_keys image_json_keys_def
    by (simp add: in_set_optional_key split del: if_split)
  show "''chromaSubsampling'' \<in> fst ` set members \<longleftrightarrow>
      get_typeof img ''jpeg-chroma-subsample'' \<noteq> 0"
    unfolding set_keys image_json_keys_def
    by (simp add: in_set_optional_key split del: if_split)
  show "{''format'', ''width'', ''height'', ''space'', ''channels'', ''depth'',
       ''isProgressive'', ''hasProfile'', ''hasAlpha'', ''orientation''} \<subseteq> fst ` set members"
    unfolding set_keys image_json_keys_def
    by (simp add: in_set_optional_key split del: if_split)
qed

lemma sample_gif_members:
  "image_json_members sample_lib sample_gif ImageType_Gif =
     Some [(''format'', JSON_String ''gif''), (''width'', JSON_Number 4),
       (''height'', JSON_Number 6), (''space'', JSON_String ''srgb''),
       (''channels'', JSON_Number 4), (''depth'', JSON_String ''uchar''),
       (''isProgressive'', JSON_Bool False), (''pages'', JSON_Number 2),
       (''pageHeight'', JSON_Number 3), (''loop'', JSON_Number 0),
       (''delay'', JSON_Array [100, 50]), (''hasProfile'', JSON_Bool False),
       (''hasAlpha'', JSON_Bool True), (''orientation'', JSON_Number 0)]"
  by (simp add: image_json_members_def sample_lib_def sample_gif_def optional_member_def
      has_density_def exif_orientation_def has_profile_def VIPS_VERSION_AT_LEAST_def)

lemma sample_numbers:
  "string_of_cint 0 = ''0''" "string_of_cint 2 = ''2''" "string_of_cint 3 = ''3''"
  "string_of_cint 4 = ''4''" "string_of_cint 6 = ''6''" "string_of_cint 50 = ''50''"
  "string_of_cint 100 = ''100''"
  by code_simp+

lemma sample_gif_json:
  \<open>image_to_json sample_lib sample_gif ImageType_Gif =
     Some (''{"format":"gif","width":4,"height":6,"space":"srgb","channels":4,'' @
       ''"depth":"uchar","isProgressive":false,"pages":2,"pageHeight":3,"loop":0,'' @
       ''"delay":[100,50],"hasProfile":false,"hasAlpha":true,"orientation":0}'')\<close>
  by (simp add: image_to_json_render sample_gif_members render_object_def render_member_def
      sample_numbers string_of_bool_def)

theorem image_to_json_optional_fields_witness:
  \<open>image_to_json sample_lib sample_gif ImageType_Gif =
     Some (''{"format":"gif","width":4,"height":6,"space":"srgb","channels":4,'' @
       ''"depth":"uchar","isProgressive":false,"pages":2,"pageHeight":3,"loop":0,'' @
       ''"delay":[100,50],"hasProfile":false,"hasAlpha":true,"orientation":0}'') \<and>
   (\<exists>members. image_json_members sample_lib sample_gif ImageType_Gif = Some members \<and>
      ''pages'' \<in> fst ` set members \<and> ''pageHeight'' \<in> fst ` set members \<and>
      ''loop'' \<in> fst ` set members \<and> ''delay'' \<in> fst ` set members \<and>
      ''density'' \<notin> fst ` set members \<and> ''paletteBitDepth'' \<notin> fst ` set members \<and>
      ''pagePrimary'' \<notin> fst ` set members \<and> ''orientation'' \<in> fst ` set members)\<close>
proof -
  obtain members where
    members: "image_json_members sample_lib sample_gif ImageType_Gif = Some members"
    using sample_gif_members by blast
  have present: "get_typeof sample_gif (VIPS_META_N_PAGES sample_lib) \<noteq> 0"
    "get_typeof sample_gif (VIPS_META_PAGE_HEIGHT sample_lib) \<noteq> 0"
    "get_typeof sample_gif
      (if VIPS_VERSION_AT_LEAST sample_lib 8 9 0 then ''loop'' else ''gif-loop'') \<noteq> 0"
    "get_typeof sample_gif
      (if VIPS_VERSION_AT_LEAST sample_lib 8 9 0 then ''delay'' else ''gif-delay'') \<noteq> 0"
    by (simp_all add: sample_gif_def sample_lib_def VIPS_VERSION_AT_LEAST_def)
  have absent: "\<not> has_density sample_gif"
    "\<not> get_typeof sample_gif ''palette-bit-depth'' \<noteq> 0"
    "\<not> get_typeof sample_gif ''heif-primary'' \<noteq> 0"
    by (simp_all add: sample_gif_def has_density_def)
  note f = image_to_json_optional_fields [of sample_lib sample_gif ImageType_Gif,
      THEN conjunct2, rule_format, OF members, THEN conjunct2]
  have density: "''density'' \<notin> fst ` set members"
    using f [THEN conjunct1] absent(1) by simp
  note f = f [THEN conjunct2]
  have pages: "''pages'' \<in> fst ` set members"
    using f [THEN conjunct1] present(1) by simp
  note f = f [THEN conjunct2]
  have page_height: "''pageHeight'' \<in> fst ` set members"
    using f [THEN conjunct1] present(2) by simp
  note f = f [THEN conjunct2]
  have loop: "''loop'' \<in> fst ` set members"
    using f [THEN conjunct1] present(3) by simp
  note f = f [THEN conjunct2]
  have delay: "''delay'' \<in> fst ` set members"
    using f [THEN conjunct1] present(4) by simp
  note f = f [THEN conjunct2]
  have palette: "''paletteBitDepth'' \<notin> fst ` set members"
    using f [THEN conjunct1] absent(2) by simp
  note f = f [THEN conjunct2]
  have primary: "''pagePrimary'' \<notin> fst ` set members"
    using f [THEN conjunct1] absent(3) by simp
  note f = f [THEN conjunct2, THEN conjunct2]
  have orientation: "''orientation'' \<in> fst ` set members"
    using f by simp
  show ?thesis
    by (intro conjI exI [of _ members])
      (fact sample_gif_json members pages page_height loop delay density palette primary
        orientation)+
qed

section \<open>Properties: page height\<close>

text \<open>
  C3.  \<open>get_page_height\<close> returns the declared page height when it is present and
  plausible (greater than zero and no larger than the image height) and the image
  height otherwise; so the result never exceeds the image height and is positive for
  an image of positive height.
\<close>

theorem get_page_height_plausible:
  "get_page_height lib img =
     (case declared_page_height lib img of
        Some p \<Rightarrow> if 0 < sint p \<and> sint p \<le> sint (height img) then p else height img
      | None \<Rightarrow> height img) \<and>
   sint (get_page_height lib img) \<le> sint (height img) \<and>
   (0 < sint (height img) \<longrightarrow> 0 < sint (get_page_height lib img))"
  by (simp add: get_page_height_def vips_image_get_page_height_def word_sless_alt
      word_sle_eq split: option.splits)

theorem get_page_height_plausible_witness:
  "sint (height sample_gif) = 6 \<and>
   declared_page_height sample_lib sample_gif = Some 3 \<and>
   get_page_height sample_lib sample_gif = 3 \<and>
   0 < sint (get_page_height sample_lib sample_gif)"
proof -
  have h: "sint (height sample_gif) = 6"
    and d: "declared_page_height sample_lib sample_gif = Some 3"
    by (simp_all add: sample_gif_def sample_lib_def declared_page_height_def)
  from get_page_height_plausible [of sample_lib sample_gif] h d show ?thesis
    by simp
qed

section \<open>Properties: alpha channel\<close>

text \<open>
  What \<open>ensure_alpha\<close> does for any \<open>bandjoin_const\<close>: an image with alpha is returned
  as it is, an image without alpha is joined with one band of the alpha maximum of its
  interpretation, and the result has alpha, and \<open>ensure_alpha\<close> is idempotent on it,
  when the engine reports alpha on the joined image.
\<close>

lemma ensure_alpha_cases:
  "(has_alpha img \<longrightarrow> ensure_alpha bandjoin_const img = img) \<and>
   (\<not> has_alpha img \<longrightarrow> ensure_alpha bandjoin_const img =
      bandjoin_const img [real_of_int (sint (maximum_image_alpha (interpretation' img)))])"
  by (simp add: ensure_alpha_def)

lemma ensure_alpha_has_alpha_iff:
  "has_alpha (ensure_alpha bandjoin_const img) \<longleftrightarrow>
     has_alpha img \<or>
     has_alpha (bandjoin_const img
       [real_of_int (sint (maximum_image_alpha (interpretation' img)))])"
  by (simp add: ensure_alpha_def)

lemma ensure_alpha_idempotent_if:
  "has_alpha (ensure_alpha bandjoin_const img) \<Longrightarrow>
   ensure_alpha bandjoin_const (ensure_alpha bandjoin_const img) =
     ensure_alpha bandjoin_const img"
  by (simp add: ensure_alpha_def)

section \<open>Properties: request status\<close>

lemma exception_handler_query:
  "\<exists>message. exception_handler query e = Status_Error (failure_kind e) message \<and>
     sublist query message"
proof -
  have "sublist query (message @ '' (query: '' @ query @ '')'')" for message
    using sublist_appendI [of query "message @ '' (query: ''" "'')''"] by simp
  then show ?thesis
    by (cases e) simp_all
qed

text \<open>
  C8.  A request either succeeds, with no stage failing, or its first failure is
  converted by \<open>exception_handler\<close> into the \<open>Status\<close> the request returns, which
  carries the kind of the failure and a message that includes the query string; an
  unexpected lower-level fault is converted the same way.
\<close>

theorem process_failures_through_exception_handler:
  "process query stages s = Status_OK \<and> (\<exists>s'. run_stages stages s = Inr s') \<or>
   (\<exists>e message. run_stages stages s = Inl e \<and>
      process query stages s = exception_handler query e \<and>
      process query stages s = Status_Error (failure_kind e) message \<and>
      sublist query message)"
proof (cases "run_stages stages s")
  case (Inl e)
  then show ?thesis
    using exception_handler_query [of query e] by (auto simp add: process_def)
next
  case (Inr s')
  then show ?thesis
    by (simp add: process_def)
qed

theorem process_failures_through_exception_handler_witness:
  "process ''w=10'' [\<lambda>s. Inr (Suc s), \<lambda>s. Inl (Fault ''engine fault'')] (0 :: nat) =
     Status_Error UnexpectedError ''engine fault (query: w=10)'' \<and>
   sublist ''w=10'' ''engine fault (query: w=10)'' \<and>
   process ''w=10'' [\<lambda>s. Inr (Suc s)] (0 :: nat) = Status_OK"
proof -
  let ?stages = "[\<lambda>s. Inr (Suc s), \<lambda>s. Inl (Fault ''engine fault'')] ::
    (nat \<Rightarrow> failure + nat) list"
  have failed: "process ''w=10'' ?stages 0 =
      Status_Error UnexpectedError ''engine fault (query: w=10)''"
    by (simp add: process_def)
  have ok: "process ''w=10'' [\<lambda>s. Inr (Suc s)] (0 :: nat) = Status_OK"
    by (simp add: process_def)
  from process_failures_through_exception_handler [of "''w=10''" ?stages 0]
  have "sublist ''w=10'' ''engine fault (query: w=10)''"
    unfolding failed by blast
  with failed ok show ?thesis
    by blast
qed

end
